theory Spec2Isabelle
  imports Complex_Main
begin

section \<open>JavaScript numbers\<close>

text \<open>
  The game computes with JavaScript numbers. Finite numbers are idealised as reals
  (no rounding, no overflow, no negative zero). The two infinities and NaN are kept as
  values of their own, because the game itself produces them: a division by a ball
  position of zero in the computer player's policy, and \<open>parseInt\<close> of a value that
  is not a numeral. Positions, sizes, speeds and bounds are finite throughout, so the
  entities store reals; only the commanded axes and the intermediate candidates of a
  move are \<open>jsnum\<close>.
\<close>

datatype jsnum = Fin real | PInf | NInf | NaN

definition inf_signed :: "real \<Rightarrow> jsnum" where
  "inf_signed s = (if s > 0 then PInf else if s < 0 then NInf else NaN)"

fun jsgn :: "jsnum \<Rightarrow> real" where
  "jsgn (Fin a) = sgn a"
| "jsgn PInf = 1"
| "jsgn NInf = - 1"
| "jsgn NaN = 0"

text \<open>\<open>a * b\<close>: NaN is absorbing, infinity times zero is NaN, otherwise the signs multiply.\<close>

fun jmul :: "jsnum \<Rightarrow> jsnum \<Rightarrow> jsnum" where
  "jmul (Fin a) (Fin b) = Fin (a * b)"
| "jmul NaN b = NaN"
| "jmul a NaN = NaN"
| "jmul a b = inf_signed (jsgn a * jsgn b)"

text \<open>\<open>a + b\<close>: NaN is absorbing, opposite infinities give NaN.\<close>

fun jadd :: "jsnum \<Rightarrow> jsnum \<Rightarrow> jsnum" where
  "jadd (Fin a) (Fin b) = Fin (a + b)"
| "jadd NaN b = NaN"
| "jadd a NaN = NaN"
| "jadd PInf NInf = NaN"
| "jadd NInf PInf = NaN"
| "jadd PInf b = PInf"
| "jadd NInf b = NInf"
| "jadd a PInf = PInf"
| "jadd a NInf = NInf"

text \<open>\<open>a / b\<close> on finite operands: a zero divisor gives a signed infinity, \<open>0 / 0\<close> NaN.\<close>

definition fdiv :: "real \<Rightarrow> real \<Rightarrow> jsnum" where
  "fdiv a b = (if b = 0 then inf_signed a else Fin (a / b))"

text \<open>\<open>a < b\<close> and \<open>a <= b\<close>: every comparison with NaN is false.\<close>

fun jlt :: "jsnum \<Rightarrow> jsnum \<Rightarrow> bool" where
  "jlt (Fin a) (Fin b) = (a < b)"
| "jlt NaN b = False"
| "jlt a NaN = False"
| "jlt a NInf = False"
| "jlt PInf b = False"
| "jlt a PInf = True"
| "jlt NInf b = True"

fun jle :: "jsnum \<Rightarrow> jsnum \<Rightarrow> bool" where
  "jle (Fin a) (Fin b) = (a \<le> b)"
| "jle NaN b = False"
| "jle a NaN = False"
| "jle NInf b = True"
| "jle a PInf = True"
| "jle a NInf = False"
| "jle PInf b = False"

definition jgt :: "jsnum \<Rightarrow> jsnum \<Rightarrow> bool" where
  "jgt a b = jlt b a"

definition jge :: "jsnum \<Rightarrow> jsnum \<Rightarrow> bool" where
  "jge a b = jle b a"

section \<open>game/objects/sprite.js\<close>

datatype direction = DLeft | DRight

record bounds =
  top_b :: real
  right_b :: real
  bottom_b :: real
  left_b :: real

record sprite =
  x :: real
  y :: real
  px :: real
  py :: real
  cx :: real
  cy :: real
  vx :: real
  vy :: real
  width :: real
  height :: real
  radius :: real
  speed :: real
  direction :: direction
  bounds :: bounds

text \<open>\<open>setBounds({ top, right, bottom, left })\<close> copies the four edges of its argument.\<close>

definition setBounds :: "'b bounds_scheme \<Rightarrow> 'a sprite_scheme \<Rightarrow> 'a sprite_scheme" where
  "setBounds bs s =
     s\<lparr>bounds := \<lparr>top_b = top_b bs, right_b = right_b bs,
                   bottom_b = bottom_b bs, left_b = left_b bs\<rparr>\<rparr>"

text \<open>
  The constructor. \<open>speed || 1\<close> replaces a zero speed by 1, \<open>direction || 'right'\<close>
  an absent direction by right; the previous y is initialised from x, as the source does.
\<close>

definition new_sprite ::
  "real \<Rightarrow> real \<Rightarrow> real \<Rightarrow> real \<Rightarrow> real \<Rightarrow> direction option \<Rightarrow> 'b bounds_scheme \<Rightarrow> sprite" where
  "new_sprite x0 y0 w h sp dir bs =
     setBounds bs
       \<lparr>x = x0, y = y0, px = x0, py = x0,
        cx = x0 + w / 2, cy = y0 + h / 2,
        vx = 0, vy = 0, width = w, height = h, radius = (w + h) / 4,
        speed = (if sp = 0 then 1 else sp),
        direction = (case dir of None \<Rightarrow> DRight | Some d \<Rightarrow> d),
        bounds = \<lparr>top_b = 0, right_b = 0, bottom_b = 0, left_b = 0\<rparr>\<rparr>"

definition setX :: "real \<Rightarrow> 'a sprite_scheme \<Rightarrow> 'a sprite_scheme" where
  "setX v s = s\<lparr>px := x s, x := v, cx := v + width s / 2, vx := v - x s\<rparr>"

definition setY :: "real \<Rightarrow> 'a sprite_scheme \<Rightarrow> 'a sprite_scheme" where
  "setY v s = s\<lparr>py := y s, y := v, cy := v + height s / 2, vy := v - y s\<rparr>"

text \<open>
  The value one axis of \<open>move\<close> passes to \<open>setX\<close>/\<open>setY\<close>: the candidate \<open>d\<close> when
  \<open>d >= lo && d <= hi\<close>, otherwise \<open>d < lo ? lo : hi\<close>. A candidate that passes the
  first test is finite.
\<close>

definition snapped :: "jsnum \<Rightarrow> real \<Rightarrow> real \<Rightarrow> real" where
  "snapped d lo hi =
     (if jge d (Fin lo) \<and> jle d (Fin hi) then (case d of Fin v \<Rightarrow> v | _ \<Rightarrow> lo)
      else if jlt d (Fin lo) then lo else hi)"

text \<open>The candidate of one axis: \<open>a === 0 ? pos : pos + (a * speed * m)\<close>.\<close>

definition candidate :: "jsnum \<Rightarrow> real \<Rightarrow> real \<Rightarrow> real \<Rightarrow> jsnum" where
  "candidate a pos sp m =
     (if a = Fin 0 then Fin pos else jadd (Fin pos) (jmul (jmul a (Fin sp)) (Fin m)))"

definition move :: "jsnum \<Rightarrow> jsnum \<Rightarrow> real \<Rightarrow> 'a sprite_scheme \<Rightarrow> 'a sprite_scheme" where
  "move ax ay m s =
     (let dx = candidate ax (x s) (speed s) m;
          dy = candidate ay (y s) (speed s) m;
          s1 = setX (snapped dx (left_b (bounds s)) (right_b (bounds s) - width s)) s;
          s2 = setY (snapped dy (top_b (bounds s1)) (bottom_b (bounds s1) - height s1)) s1;
          s3 = (if jlt ax (Fin 0) then s2\<lparr>direction := DRight\<rparr> else s2);
          s4 = (if jgt ax (Fin 0) then s3\<lparr>direction := DLeft\<rparr> else s3)
      in s4)"

section \<open>game/characters/ball.js\<close>

text \<open>
  Modelled from the spec: \<open>game/objects/imageSprite.js\<close>, the class \<open>Ball\<close> extends,
  is not among the sources. The spec has the ball extend the entity and delegate its
  movement to the entity's \<open>move\<close>; so the constructor and \<open>move\<close> of the image sprite
  are taken to be those of \<open>Sprite\<close> (it adds drawing only).
\<close>

record ball = sprite +
  dx :: real
  dy :: real
  launched :: bool

definition new_ball :: "real \<Rightarrow> real \<Rightarrow> real \<Rightarrow> real \<Rightarrow> real \<Rightarrow> 'b bounds_scheme \<Rightarrow> ball" where
  "new_ball x0 y0 w h sp bs =
     sprite.extend (new_sprite x0 y0 w h sp None bs) (ball.fields (- 1) 0 False)"

definition stop :: "'a ball_scheme \<Rightarrow> 'a ball_scheme" where
  "stop b = b\<lparr>launched := False, dx := 0\<rparr>"

text \<open>\<open>Ball.move(m)\<close>: nothing while stopped, else \<open>super.move(this.dx, this.dy, m)\<close>.\<close>

definition ball_move :: "real \<Rightarrow> 'a ball_scheme \<Rightarrow> 'a ball_scheme" where
  "ball_move m b = (if \<not> launched b then b else move (Fin (dx b)) (Fin (dy b)) m b)"

text \<open>
  A pending \<open>setTimeout\<close>: the deferred half of \<open>launch\<close> (with the total offset and the
  direction its closure captured), or the deferred \<open>reset\<close> of the game. The list of
  pending timers pairs each with its delay in milliseconds.
\<close>

datatype timer = LaunchTimer real real | ResetTimer

text \<open>The three assignments that \<open>launch\<close> runs at once or from its timer.\<close>

definition launch_now :: "real \<Rightarrow> real \<Rightarrow> 'a ball_scheme \<Rightarrow> 'a ball_scheme" where
  "launch_now totalOffset d b = b\<lparr>launched := True, x := x b + totalOffset, dx := d\<rparr>"

text \<open>
  \<open>launch(delay, dx, offset)\<close>. The delay is \<open>null\<close> (\<open>None\<close>) or a number; \<open>if (delay)\<close>
  takes a positive number only. The result is the ball and the timers it scheduled.
\<close>

definition launch ::
  "nat option \<Rightarrow> real \<Rightarrow> real \<Rightarrow> 'a ball_scheme \<Rightarrow> 'a ball_scheme \<times> (nat \<times> timer) list" where
  "launch delay d offset b =
     (let totalOffset = (offset + width b) * d;
          b1 = stop b
      in case delay of
           Some ms \<Rightarrow>
             if ms \<noteq> 0 then (b1, [(ms, LaunchTimer totalOffset d)])
             else (launch_now totalOffset d b1, [])
         | None \<Rightarrow> (launch_now totalOffset d b1, []))"

definition collidesWith :: "'a ball_scheme \<Rightarrow> 'b sprite_scheme \<Rightarrow> bool" where
  "collidesWith b e =
     (let distanceX = \<bar>cx e - cx b\<bar>;
          onY = (cy b > y e \<and> cy b < y e + height e)
      in onY \<and> distanceX < (width e + width b) / 2)"

text \<open>\<open>entities.find(...)\<close>: the first entity the ball collides with, or \<open>undefined\<close>.\<close>

fun collisionsWith :: "'a ball_scheme \<Rightarrow> 'b sprite_scheme list \<Rightarrow> 'b sprite_scheme option" where
  "collisionsWith b [] = None"
| "collisionsWith b (e # es) = (if collidesWith b e then Some e else collisionsWith b es)"

section \<open>game/characters/player.js\<close>

text \<open>The drawing context and the colour of a player are left to the renderer.\<close>

record player = sprite +
  name :: string
  score :: nat

definition new_player ::
  "string \<Rightarrow> real \<Rightarrow> real \<Rightarrow> real \<Rightarrow> real \<Rightarrow> real \<Rightarrow> 'b bounds_scheme \<Rightarrow> player" where
  "new_player nm x0 y0 w h sp bs =
     sprite.extend (new_sprite x0 y0 w h sp None bs) (player.fields nm 0)"

section \<open>game/helpers/utils.js and the built-in parseInt\<close>

text \<open>
  \<open>boundBy(n, upper, lower)\<close>: first \<open>n < lower ? lower : n\<close>, then
  \<open>n > upper ? upper : n\<close> on the result.
\<close>

definition boundBy :: "jsnum \<Rightarrow> jsnum \<Rightarrow> jsnum \<Rightarrow> jsnum" where
  "boundBy n upper lower =
     (let n1 = (if jlt n lower then lower else n);
          n2 = (if jgt n1 upper then upper else n1)
      in n2)"

text \<open>
  \<open>parseInt(string)\<close> with no radix, after ECMAScript: leading white space is dropped,
  a sign is read, a prefix \<open>0x\<close> or \<open>0X\<close> selects radix 16, and the longest run of
  digits of the radix is the value; with no digit the result is NaN.
\<close>

definition is_space :: "char \<Rightarrow> bool" where
  "is_space c = ((of_char c :: nat) \<in> {9, 10, 11, 12, 13, 32})"

definition digit_of :: "char \<Rightarrow> nat option" where
  "digit_of c =
     (let n = (of_char c :: nat)
      in if 48 \<le> n \<and> n \<le> 57 then Some (n - 48)
         else if 97 \<le> n \<and> n \<le> 122 then Some (n - 87)
         else if 65 \<le> n \<and> n \<le> 90 then Some (n - 55)
         else None)"

fun digits :: "nat \<Rightarrow> string \<Rightarrow> nat option \<Rightarrow> nat option" where
  "digits r [] acc = acc"
| "digits r (c # cs) acc =
     (case digit_of c of
        None \<Rightarrow> acc
      | Some v \<Rightarrow>
          if v < r then digits r cs (Some (r * (case acc of None \<Rightarrow> 0 | Some a \<Rightarrow> a) + v))
          else acc)"

definition parseInt :: "string \<Rightarrow> jsnum" where
  "parseInt str =
     (let s0 = dropWhile is_space str;
          (sign, s1) =
            (case s0 of
               [] \<Rightarrow> (1, s0)
             | c # cs \<Rightarrow>
                 if c = CHR ''-'' then (- 1, cs)
                 else if c = CHR ''+'' then (1, cs) else (1, s0));
          (r, s2) =
            (case s1 of
               c # d # cs \<Rightarrow>
                 if c = CHR ''0'' \<and> (d = CHR ''x'' \<or> d = CHR ''X'') then (16, cs)
                 else (10, s1)
             | _ \<Rightarrow> (10, s1))
      in case digits r s2 None of
           None \<Rightarrow> NaN
         | Some n \<Rightarrow> Fin (sign * real n))"

text \<open>\<open>a / b\<close> and \<open>-a\<close> on all numbers (a finite divisor zero counts as positive).\<close>

fun jdiv :: "jsnum \<Rightarrow> jsnum \<Rightarrow> jsnum" where
  "jdiv (Fin a) (Fin b) = fdiv a b"
| "jdiv NaN b = NaN"
| "jdiv a NaN = NaN"
| "jdiv (Fin a) b = Fin 0"
| "jdiv PInf (Fin b) = (if b < 0 then NInf else PInf)"
| "jdiv NInf (Fin b) = (if b < 0 then PInf else NInf)"
| "jdiv a b = NaN"

fun jneg :: "jsnum \<Rightarrow> jsnum" where
  "jneg (Fin a) = Fin (- a)"
| "jneg PInf = NInf"
| "jneg NInf = PInf"
| "jneg NaN = NaN"

section \<open>game/main.js: the data of a game\<close>

text \<open>
  The settings of the configuration that the simulation reads. The numeric settings
  are configured as numerals; each field holds the number the source reads from it
  (\<open>parseInt\<close> of the ball speed, the ball size and the win score).
\<close>

record settings =
  playerHeight :: real
  playerWidth :: real
  ballSpeed :: int
  ballSize :: int
  winScore_cfg :: int
  difficulty :: int

text \<open>The string conversion of a plain object, as \<open>parseInt\<close> applies it to its argument.\<close>

definition object_toString :: "settings \<Rightarrow> string" where
  "object_toString cfg = ''[object Object]''"

record screen = bounds +
  centerX :: real
  centerY :: real
  scale :: real

datatype phase = Loading | Ready | Play | WinPlayer1 | WinPlayer2

record gstate =
  current :: phase
  prev :: "phase option"
  paused :: bool
  muted :: bool
  winScore :: int

datatype source = Keyboard | Mouse | Touch

text \<open>Of the four keys of a keyboard record only \<open>up\<close> and \<open>down\<close> are ever used.\<close>

record keys =
  up :: bool
  down :: bool

record kinput =
  active :: bool
  current_in :: source
  keyboard :: keys

record pinput = kinput +
  mouse_y :: real
  touch_y :: real

text \<open>
  What the game object holds before its characters exist (\<open>session\<close>) and after
  \<open>create\<close> (\<open>game\<close>). \<open>frame_scale\<close> is \<open>this.frame.scale\<close>, \<open>offsetTop\<close> the canvas
  offset, \<open>timers\<close> the pending \<open>setTimeout\<close> calls. Sounds, images and the overlay
  belong to the collaborators and are not modelled.
\<close>

record session =
  state :: gstate
  input :: pinput
  input2 :: kinput
  screen :: screen
  settings :: settings
  offsetTop :: real
  frame_scale :: real
  timers :: "(nat \<times> timer) list"

record game = session +
  player1 :: player
  player2 :: player
  ball :: ball

text \<open>
  \<open>setState(state)\<close> spreads the old state, then \<open>prev: this.state.current\<close>, then the
  given fields; the given fields are an update of the record.
\<close>

definition setState :: "(gstate \<Rightarrow> gstate) \<Rightarrow> gstate \<Rightarrow> gstate" where
  "setState upd st = upd (st\<lparr>prev := Some (current st)\<rparr>)"

definition is_win :: "phase \<Rightarrow> bool" where
  "is_win c = (c = WinPlayer1 \<or> c = WinPlayer2)"

section \<open>game/main.js: one tick of play\<close>

text \<open>The check for a winner: two separate tests, player 1 first.\<close>

definition win_check :: "game \<Rightarrow> game" where
  "win_check g =
     (let g1 = (if int (score (player1 g)) = winScore (state g)
                then g\<lparr>state := setState (\<lambda>s. s\<lparr>current := WinPlayer1\<rparr>) (state g)\<rparr> else g);
          g2 = (if int (score (player2 g1)) = winScore (state g1)
                then g1\<lparr>state := setState (\<lambda>s. s\<lparr>current := WinPlayer2\<rparr>) (state g1)\<rparr> else g1)
      in g2)"

text \<open>The axis of a keyboard: \<open>(up ? -1 : 0) + (down ? 1 : 0)\<close>.\<close>

definition key_axis :: "keys \<Rightarrow> real" where
  "key_axis k = (if up k then - 1 else 0) + (if down k then 1 else 0)"

text \<open>The axis of a pointer at \<open>py0\<close>: \<open>(py0 - offsetTop - y - height / 2) / 100\<close>.\<close>

definition pointer_axis :: "real \<Rightarrow> real \<Rightarrow> 'a sprite_scheme \<Rightarrow> real" where
  "pointer_axis py0 off p = (let yy = py0 - off; diffY = yy - y p - height p / 2 in diffY / 100)"

definition move_player1 :: "game \<Rightarrow> game" where
  "move_player1 g =
     (case current_in (input g) of
        Keyboard \<Rightarrow>
          g\<lparr>player1 := move (Fin 0) (Fin (key_axis (keyboard (input g)))) (frame_scale g) (player1 g)\<rparr>
      | Mouse \<Rightarrow>
          g\<lparr>player1 := move (Fin 0)
             (Fin (pointer_axis (mouse_y (input g)) (offsetTop g) (player1 g))) 1 (player1 g)\<rparr>
      | Touch \<Rightarrow>
          g\<lparr>player1 := move (Fin 0)
             (Fin (pointer_axis (touch_y (input g)) (offsetTop g) (player1 g))) 1 (player1 g)\<rparr>)"

text \<open>
  The axis the computer player commands. The limit is read by
  \<open>parseInt(this.config.settings)\<close>: of the settings object, not of its difficulty.
\<close>

definition computer_axis :: "game \<Rightarrow> jsnum" where
  "computer_axis g =
     (let diffY = y (ball g) / 2 - y (player2 g);
          dy2 = jdiv (Fin diffY) (Fin (x (ball g) * 2));
          difficulty = parseInt (object_toString (settings g));
          speedLimit = jdiv difficulty (Fin 2);
          dy2capped = boundBy dy2 speedLimit (jneg speedLimit)
      in dy2capped)"

definition move_player2 :: "game \<Rightarrow> game" where
  "move_player2 g =
     (let g1 = (if \<not> active (input2 g) \<and> launched (ball g) \<and> dx (ball g) < 0
                then g\<lparr>player2 := move (Fin 0) (computer_axis g) (frame_scale g) (player2 g)\<rparr>
                else g);
          g2 = (if active (input2 g1)
                then g1\<lparr>player2 :=
                        move (Fin 0) (Fin (key_axis (keyboard (input2 g1)))) (frame_scale g1) (player2 g1)\<rparr>
                else g1)
      in g2)"

text \<open>The ball on the ceiling or on the floor of the screen turns its vertical direction.\<close>

definition bounce_edge :: "game \<Rightarrow> game" where
  "bounce_edge g =
     (let onEdgeY = (y (ball g) = top_b (screen g)
                     \<or> y (ball g) = bottom_b (screen g) - height (ball g))
      in if onEdgeY then g\<lparr>ball := (ball g)\<lparr>dy := - dy (ball g)\<rparr>\<rparr> else g)"

text \<open>
  The ball against the two players. A hit of player 2 also stops the ball and
  schedules a reset after a second.
\<close>

definition bounce_paddles :: "game \<Rightarrow> game" where
  "bounce_paddles g =
     (let collided = collisionsWith (ball g) [player1 g, player2 g];
          g1 = (case collided of
                  None \<Rightarrow> g
                | Some e \<Rightarrow>
                    if name e = ''player1''
                    then g\<lparr>ball := (ball g)\<lparr>dx := - 1, speed := speed (ball g) + 1\<rparr>\<rparr>
                    else g);
          g2 = (case collided of
                  None \<Rightarrow> g1
                | Some e \<Rightarrow>
                    if name e = ''player2''
                    then g1\<lparr>ball := stop ((ball g1)\<lparr>dx := 1, speed := speed (ball g1) + 10\<rparr>),
                            timers := timers g1 @ [(1000, ResetTimer)]\<rparr>
                    else g1)
      in g2)"

text \<open>
  The launched ball at its left bound. The comments of the source give the point to
  player 1 here; its statement is \<open>this.player2.score += 1\<close>, as at the right bound.
\<close>

definition score_left :: "game \<Rightarrow> game" where
  "score_left g =
     (if launched (ball g) \<and> x (ball g) \<le> left_b (bounds (ball g)) then
        let g1 = g\<lparr>player2 := (player2 g)\<lparr>score := score (player2 g) + 1\<rparr>\<rparr>;
            g2 = g1\<lparr>ball := (ball g1)\<lparr>speed := real_of_int (ballSpeed (settings g1))\<rparr>\<rparr>;
            g3 = (if active (input2 g2) then g2\<lparr>ball := stop (ball g2)\<rparr>
                  else
                    let (b, ts) = launch (Some 3000) 1 (width (player2 g2))
                                    (setY (y (player2 g2)) (ball g2))
                    in g2\<lparr>ball := b, timers := timers g2 @ ts\<rparr>)
        in g3\<lparr>timers := timers g3 @ [(1000, ResetTimer)]\<rparr>
      else g)"

text \<open>The launched ball at its right bound.\<close>

definition score_right :: "game \<Rightarrow> game" where
  "score_right g =
     (if launched (ball g) \<and> x (ball g) + width (ball g) \<ge> right_b (bounds (ball g)) then
        let g1 = g\<lparr>player2 := (player2 g)\<lparr>score := score (player2 g) + 1\<rparr>\<rparr>;
            g2 = g1\<lparr>ball := (ball g1)\<lparr>speed := real_of_int (ballSpeed (settings g1))\<rparr>\<rparr>
        in g2\<lparr>ball := stop (ball g2)\<rparr>
      else g)"

definition advance_ball :: "game \<Rightarrow> game" where
  "advance_ball g = g\<lparr>ball := ball_move (frame_scale g) (ball g)\<rparr>"

text \<open>The body of \<open>if (this.state.current === 'play')\<close>, in the order of the source.\<close>

definition play_tick :: "game \<Rightarrow> game" where
  "play_tick g =
     advance_ball (score_right (score_left (bounce_paddles (bounce_edge
       (move_player2 (move_player1 (win_check g)))))))"

text \<open>
  \<open>play()\<close>: the step from loading to ready is acknowledged, then a game in play is
  advanced by a tick. The win states only set a banner.
\<close>

definition play :: "game \<Rightarrow> game" where
  "play g =
     (let g1 = (if current (state g) = Ready \<and> prev (state g) = Some Loading
                then g\<lparr>state := setState (\<lambda>s. s\<lparr>current := Ready\<rparr>) (state g)\<rparr> else g);
          g2 = (if current (state g1) = Play then play_tick g1 else g1)
      in g2)"

section \<open>game/main.js: load and create\<close>

text \<open>The screen \<open>load\<close> derives from the canvas of width \<open>w\<close> and height \<open>h\<close>.\<close>

definition mk_screen :: "real \<Rightarrow> real \<Rightarrow> screen" where
  "mk_screen w h =
     \<lparr>top_b = 0, right_b = w, bottom_b = h, left_b = 0,
      centerX = w / 2, centerY = h / 2, scale = ((w + h) / 2) * 0.003\<rparr>"

definition is_reset :: "nat \<times> timer \<Rightarrow> bool" where
  "is_reset t = (snd t = ResetTimer)"

text \<open>
  \<open>create()\<close> makes the two players and the ball, sets the state to ready and calls
  \<open>play()\<close>. A pending launch acts on the ball that scheduled it; that ball is replaced
  here, so of the pending timers only the resets still act on the game.
\<close>

definition create :: "'a session_scheme \<Rightarrow> game" where
  "create ss =
     (let scl = scale (screen ss);
          pHeight = playerHeight (settings ss) * scl;
          pWidth = playerWidth (settings ss) * scl;
          p1 = new_player ''player1'' (right_b (screen ss) - pWidth)
                 (centerY (screen ss) - pHeight / 2) pWidth pHeight 50 (screen ss);
          p2 = new_player ''player2'' 0
                 (centerY (screen ss) - pHeight / 2) pWidth pHeight 50 (screen ss);
          ballWidth = real_of_int (ballSize (settings ss)) * scl;
          ballHeight = real_of_int (ballSize (settings ss)) * scl;
          b = new_ball (right_b (screen ss) + ballWidth) (y p1) ballWidth ballHeight
                (real_of_int (ballSpeed (settings ss)))
                \<lparr>top_b = 0, right_b = right_b (screen ss) + ballWidth,
                 bottom_b = bottom_b (screen ss), left_b = left_b (screen ss) - ballWidth\<rparr>;
          g = session.extend (session.truncate ss) (game.fields p1 p2 b)
      in play (g\<lparr>state := setState (\<lambda>s. s\<lparr>current := Ready\<rparr>) (state g),
                 timers := filter is_reset (timers g)\<rparr>))"

text \<open>\<open>load()\<close>, with the loading of the assets taken as done at once.\<close>

definition load :: "real \<Rightarrow> real \<Rightarrow> 'a session_scheme \<Rightarrow> game" where
  "load w h ss =
     create (ss\<lparr>screen := mk_screen w h,
               state := setState (\<lambda>s. s\<lparr>winScore := winScore_cfg (settings ss)\<rparr>) (state ss)\<rparr>)"

section \<open>game/main.js: the event handlers\<close>

definition relaunchBall :: "string \<Rightarrow> game \<Rightarrow> game" where
  "relaunchBall side g =
     (if launched (ball g) then g
      else
        let g1 = g\<lparr>ball := (ball g)\<lparr>speed := real_of_int (ballSpeed (settings g))\<rparr>\<rparr>;
            g2 = (if side = ''right'' then
                    let (b, ts) = launch None (- 1) (width (player1 g1))
                                    (setY (y (player1 g1)) (ball g1))
                    in g1\<lparr>ball := b, timers := timers g1 @ ts\<rparr>
                  else g1);
            g3 = (if side = ''left'' then
                    let (b, ts) = launch None 1 (width (player2 g2))
                                    (setY (y (player2 g2)) (ball g2))
                    in g2\<lparr>ball := b, timers := timers g2 @ ts\<rparr>
                  else g2)
        in g3)"

text \<open>\<open>pause()\<close> and \<open>mute()\<close> write their flag directly, not through \<open>setState\<close>.\<close>

definition pause :: "game \<Rightarrow> game" where
  "pause g =
     (if current (state g) \<noteq> Play then g
      else g\<lparr>state := (state g)\<lparr>paused := \<not> paused (state g)\<rparr>\<rparr>)"

definition mute :: "game \<Rightarrow> game" where
  "mute g = g\<lparr>state := (state g)\<lparr>muted := \<not> muted (state g)\<rparr>\<rparr>"

text \<open>
  The handlers return \<open>None\<close> when they reload the document: the session ends and a
  new one is constructed.
\<close>

definition handleClicks :: "string \<Rightarrow> game \<Rightarrow> game option" where
  "handleClicks target g =
     (if current (state g) = Loading then Some g
      else if target = ''mute'' then Some (mute g)
      else if target = ''pause'' then Some (pause g)
      else if target = ''button''
        then Some (g\<lparr>state := setState (\<lambda>s. s\<lparr>current := Play\<rparr>) (state g)\<rparr>)
      else
        let onSide = (\<not> launched (ball g) \<and> x (ball g) > centerX (screen g));
            g1 = (if current (state g) = Play \<and> onSide then relaunchBall ''right'' g else g)
        in if is_win (current (state g1)) then None else Some g1)"

definition set_keys1 :: "(keys \<Rightarrow> keys) \<Rightarrow> game \<Rightarrow> game" where
  "set_keys1 f g = g\<lparr>input := (input g)\<lparr>keyboard := f (keyboard (input g))\<rparr>\<rparr>"

definition set_keys2 :: "(keys \<Rightarrow> keys) \<Rightarrow> game \<Rightarrow> game" where
  "set_keys2 f g = g\<lparr>input2 := (input2 g)\<lparr>keyboard := f (keyboard (input2 g))\<rparr>\<rparr>"

text \<open>The ball waits on the right half of the screen.\<close>

definition rightSide :: "game \<Rightarrow> bool" where
  "rightSide g = (\<not> launched (ball g) \<and> x (ball g) > centerX (screen g))"

text \<open>
  \<open>handleKeyboardInput(type, code)\<close>, block by block: the keys of player 1 and the
  relaunch with the space bar; the keys of player 2 and the relaunch with the left
  shift key; the switch to two players; the pause key; the reload after a win.
\<close>

definition player1_keys :: "string \<Rightarrow> string \<Rightarrow> game \<Rightarrow> game" where
  "player1_keys ty kc g =
     (let g1 = (if ty = ''keydown'' \<and> kc = ''ArrowUp'' then set_keys1 (\<lambda>k. k\<lparr>up := True\<rparr>) g
                else if ty = ''keydown'' \<and> kc = ''ArrowDown''
                  then set_keys1 (\<lambda>k. k\<lparr>down := True\<rparr>) g
                else g)
      in if ty = ''keyup'' \<and> kc = ''ArrowUp'' then set_keys1 (\<lambda>k. k\<lparr>up := False\<rparr>) g1
         else if ty = ''keyup'' \<and> kc = ''ArrowDown'' then set_keys1 (\<lambda>k. k\<lparr>down := False\<rparr>) g1
         else if ty = ''keyup'' \<and> kc = ''Space'' \<and> current (state g1) = Play \<and> rightSide g1
           then relaunchBall ''right'' g1
         else g1)"

definition player2_keys :: "string \<Rightarrow> string \<Rightarrow> game \<Rightarrow> game" where
  "player2_keys ty kc g =
     (let g1 = (if ty = ''keydown'' \<and> kc = ''KeyW'' then set_keys2 (\<lambda>k. k\<lparr>up := True\<rparr>) g
                else if ty = ''keydown'' \<and> kc = ''KeyS'' then set_keys2 (\<lambda>k. k\<lparr>down := True\<rparr>) g
                else if ty = ''keydown'' \<and> kc = ''ShiftLeft'' \<and> current (state g) = Play
                        \<and> \<not> rightSide g
                  then relaunchBall ''left'' g
                else g)
      in if ty = ''keyup'' \<and> kc = ''KeyW'' then set_keys2 (\<lambda>k. k\<lparr>up := False\<rparr>) g1
         else if ty = ''keyup'' \<and> kc = ''KeyS'' then set_keys2 (\<lambda>k. k\<lparr>down := False\<rparr>) g1
         else g1)"

definition join_player2 :: "string \<Rightarrow> string \<Rightarrow> game \<Rightarrow> game" where
  "join_player2 ty kc g =
     (if ty = ''keydown'' \<and> (kc = ''KeyW'' \<or> kc = ''KeyS'') \<and> \<not> active (input2 g)
      then g\<lparr>input2 := (input2 g)\<lparr>active := True\<rparr>\<rparr> else g)"

definition pause_key :: "string \<Rightarrow> string \<Rightarrow> game \<Rightarrow> game" where
  "pause_key ty kc g = (if ty = ''keydown'' \<and> kc = ''KeyP'' then pause g else g)"

definition handleKeyboardInput :: "string \<Rightarrow> string \<Rightarrow> game \<Rightarrow> game option" where
  "handleKeyboardInput ty kc g =
     (let g1 = g\<lparr>input := (input g)\<lparr>current_in := Keyboard\<rparr>\<rparr>;
          g2 = pause_key ty kc (join_player2 ty kc (player2_keys ty kc (player1_keys ty kc g1)))
      in if ty = ''keyup'' \<and> kc = ''Space'' \<and> is_win (current (state g2)) then None
         else Some g2)"

definition handleMouseMove :: "real \<Rightarrow> game \<Rightarrow> game" where
  "handleMouseMove v g = g\<lparr>input := (input g)\<lparr>current_in := Mouse, mouse_y := v\<rparr>\<rparr>"

definition handleTouchMove :: "real \<Rightarrow> game \<Rightarrow> game" where
  "handleTouchMove v g = g\<lparr>input := (input g)\<lparr>current_in := Touch, touch_y := v\<rparr>\<rparr>"

text \<open>
  A pending timer runs and leaves the list: a launch completes on the ball, a reset
  reloads the document.
\<close>

definition fire :: "nat \<Rightarrow> game \<Rightarrow> game option" where
  "fire i g =
     (if i < length (timers g) then
        (case snd (timers g ! i) of
           ResetTimer \<Rightarrow> None
         | LaunchTimer totalOffset d \<Rightarrow>
             Some (g\<lparr>ball := launch_now totalOffset d (ball g),
                     timers := take i (timers g) @ drop (Suc i) (timers g)\<rparr>))
      else Some g)"

text \<open>
  What can happen to a game: the frame callback runs \<open>play()\<close> with the frame scale
  \<open>requestFrame\<close> computed; a key goes down or up; the pointer or a touch moves; the
  overlay is clicked; a timer runs; the window is resized; the configuration changes
  (which loads and creates again, on a canvas of the given size).
\<close>

datatype event =
    Frame real
  | KeyDown string
  | KeyUp string
  | MouseMove real
  | TouchMove real
  | Click string
  | Timeout nat
  | Resize
  | ConfigChange settings real real

fun handle :: "event \<Rightarrow> game \<Rightarrow> game option" where
  "handle (Frame m) g = Some (play (g\<lparr>frame_scale := m\<rparr>))"
| "handle (KeyDown kc) g = handleKeyboardInput ''keydown'' kc g"
| "handle (KeyUp kc) g = handleKeyboardInput ''keyup'' kc g"
| "handle (MouseMove v) g = Some (handleMouseMove v g)"
| "handle (TouchMove v) g = Some (handleTouchMove v g)"
| "handle (Click target) g = handleClicks target g"
| "handle (Timeout i) g = fire i g"
| "handle Resize g = None"
| "handle (ConfigChange cfg w h) g = Some (load w h (g\<lparr>settings := cfg\<rparr>))"

text \<open>
  Only a pending timer can run. A frame can come at any time: \<open>pause()\<close> cancels the
  pending frame, but \<open>create()\<close> starts the frames again whatever the pause flag says.
\<close>

fun enabled :: "event \<Rightarrow> game \<Rightarrow> bool" where
  "enabled (Timeout i) g = (i < length (timers g))"
| "enabled ev g = True"

text \<open>
  The constructor: the state is loading, the inputs are idle, player 2 is the computer.
  The screen and the win score are set by \<open>load\<close> only; they are zero here.
\<close>

definition new_session :: "settings \<Rightarrow> bool \<Rightarrow> session" where
  "new_session cfg m =
     \<lparr>state = \<lparr>current = Loading, prev = None, paused = False, muted = m, winScore = 0\<rparr>,
      input = \<lparr>active = True, current_in = Keyboard,
               keyboard = \<lparr>up = False, down = False\<rparr>, mouse_y = 0, touch_y = 0\<rparr>,
      input2 = \<lparr>active = False, current_in = Keyboard,
                keyboard = \<lparr>up = False, down = False\<rparr>\<rparr>,
      screen = mk_screen 0 0, settings = cfg, offsetTop = 0, frame_scale = 0, timers = []\<rparr>"

text \<open>
  The session as the constructor leaves it, up to the input events that may have come
  before the characters exist.
\<close>

definition constructed :: "session \<Rightarrow> bool" where
  "constructed ss =
     (current (state ss) = Loading \<and> prev (state ss) = None
      \<and> \<not> paused (state ss) \<and> timers ss = [])"

inductive reachable :: "game \<Rightarrow> bool" where
  start: "constructed ss \<Longrightarrow> reachable (load w h ss)"
| step: "reachable g \<Longrightarrow> enabled ev g \<Longrightarrow> handle ev g = Some g' \<Longrightarrow> reachable g'"

text \<open>A run of events from a game, stopping with \<open>None\<close> at a reload or a disabled event.\<close>

fun run :: "event list \<Rightarrow> game \<Rightarrow> game option" where
  "run [] g = Some g"
| "run (ev # evs) g =
     (if enabled ev g then (case handle ev g of None \<Rightarrow> None | Some g' \<Rightarrow> run evs g')
      else None)"

text \<open>The game as a tick has it when it tests the ball against its left bound.\<close>

definition before_score :: "game \<Rightarrow> game" where
  "before_score g =
     bounce_paddles (bounce_edge (move_player2 (move_player1 (win_check g))))"

section \<open>The computer player's policy as the specification words it\<close>

text \<open>
  The target offset is \<open>ballY / 2 - paddleY\<close>, the commanded axis is the offset
  divided by \<open>ballX * 2\<close>, clamped symmetrically to plus and minus half the configured
  difficulty.
\<close>

definition spec_computer_axis :: "game \<Rightarrow> jsnum" where
  "spec_computer_axis g =
     (let offset = y (ball g) / 2 - y (player2 g);
          axis = jdiv (Fin offset) (Fin (x (ball g) * 2));
          limit = real_of_int (difficulty (settings g)) / 2
      in if jlt axis (Fin (- limit)) then Fin (- limit)
         else if jgt axis (Fin limit) then Fin limit else axis)"

section \<open>Concrete sprites and games\<close>

text \<open>A paddle of height 50 at y = 100 between top 0 and bottom 200, with speed 10.\<close>

definition scenario_paddle :: sprite where
  "scenario_paddle =
     new_sprite 0 100 20 50 10 None \<lparr>top_b = 0, right_b = 300, bottom_b = 200, left_b = 0\<rparr>"

text \<open>A sprite wider than its bounds: the bounds are 10 wide, the sprite 20.\<close>

definition wide_sprite :: sprite where
  "wide_sprite =
     new_sprite 0 0 20 5 1 None \<lparr>top_b = 0, right_b = 10, bottom_b = 10, left_b = 0\<rparr>"

text \<open>
  A paddle of width 20 and height 100 centred at (400, 300), one far to the left, and
  a ball of size 10 centred at (400, 300) and at (500, 300).
\<close>

definition centre_paddle :: player where
  "centre_paddle =
     new_player ''player1'' 390 250 20 100 50
       \<lparr>top_b = 0, right_b = 800, bottom_b = 600, left_b = 0\<rparr>"

definition far_paddle :: player where
  "far_paddle =
     new_player ''player2'' 0 250 20 100 50
       \<lparr>top_b = 0, right_b = 800, bottom_b = 600, left_b = 0\<rparr>"

definition centre_ball :: ball where
  "centre_ball =
     new_ball 395 295 10 10 5 \<lparr>top_b = 0, right_b = 810, bottom_b = 600, left_b = - 10\<rparr>"

definition off_ball :: ball where
  "off_ball =
     new_ball 495 295 10 10 5 \<lparr>top_b = 0, right_b = 810, bottom_b = 600, left_b = - 10\<rparr>"

text \<open>
  Settings for a canvas of 600 by 400 (scale 1.5): paddles of 15 by 15, a ball of 60 by
  60 with speed 5, difficulty 2; the win score is 3, or 0 in the second settings.
\<close>

definition demo_settings :: settings where
  "demo_settings =
     \<lparr>playerHeight = 10, playerWidth = 10, ballSpeed = 5, ballSize = 40,
      winScore_cfg = 3, difficulty = 2\<rparr>"

definition tie_settings :: settings where
  "tie_settings = demo_settings\<lparr>winScore_cfg := 0\<rparr>"

definition demo_start :: game where
  "demo_start = load 600 400 (new_session demo_settings False)"

text \<open>
  The games below are written out field by field; each is the game that its events
  lead to from the start (\<open>tie_game_run\<close> to \<open>floor_game_run\<close>).
\<close>

text \<open>The start button is clicked with a win score of 0.\<close>

definition tie_events :: "event list" where
  "tie_events = [Click ''button'']"

definition tie_game :: game where
  "tie_game =
     \<lparr>state = \<lparr>current = Play, prev = Some Ready, paused = False, muted = False,
          winScore = 0\<rparr>,
      input = \<lparr>active = True, current_in = Keyboard, keyboard = \<lparr>up = False,
          down = False\<rparr>, mouse_y = 0, touch_y = 0\<rparr>,
      input2 = \<lparr>active = False, current_in = Keyboard,
          keyboard = \<lparr>up = False, down = False\<rparr>\<rparr>,
      screen = \<lparr>top_b = 0, right_b = 600, bottom_b = 400, left_b = 0, centerX = 300,
          centerY = 200, scale = 3 / 2\<rparr>,
      settings = \<lparr>playerHeight = 10, playerWidth = 10, ballSpeed = 5, ballSize = 40,
          winScore_cfg = 0, difficulty = 2\<rparr>,
      offsetTop = 0,
      frame_scale = 0,
      timers = [],
      player1 = \<lparr>x = 585, y = 385 / 2, px = 585, py = 585, cx = 1185 / 2, cy = 200,
          vx = 0, vy = 0, width = 15, height = 15, radius = 15 / 2, speed = 50,
          direction = DRight, bounds = \<lparr>top_b = 0, right_b = 600, bottom_b = 400,
          left_b = 0\<rparr>, name = ''player1'', score = 0\<rparr>,
      player2 = \<lparr>x = 0, y = 385 / 2, px = 0, py = 0, cx = 15 / 2, cy = 200, vx = 0,
          vy = 0, width = 15, height = 15, radius = 15 / 2, speed = 50, direction = DRight,
          bounds = \<lparr>top_b = 0, right_b = 600, bottom_b = 400, left_b = 0\<rparr>,
          name = ''player2'', score = 0\<rparr>,
      ball = \<lparr>x = 660, y = 385 / 2, px = 660, py = 660, cx = 690, cy = 445 / 2,
          vx = 0, vy = 0, width = 60, height = 60, radius = 30, speed = 5, direction = DRight,
          bounds = \<lparr>top_b = 0, right_b = 660, bottom_b = 400, left_b = - 60\<rparr>,
          dx = - 1, dy = 0, launched = False\<rparr>\<rparr>"

text \<open>The game is started and the ball launched from the right with the space bar.\<close>

definition launch_events :: "event list" where
  "launch_events = [Click ''button'', KeyUp ''Space'']"

definition launched_game :: game where
  "launched_game =
     \<lparr>state = \<lparr>current = Play, prev = Some Ready, paused = False, muted = False,
          winScore = 3\<rparr>,
      input = \<lparr>active = True, current_in = Keyboard, keyboard = \<lparr>up = False,
          down = False\<rparr>, mouse_y = 0, touch_y = 0\<rparr>,
      input2 = \<lparr>active = False, current_in = Keyboard,
          keyboard = \<lparr>up = False, down = False\<rparr>\<rparr>,
      screen = \<lparr>top_b = 0, right_b = 600, bottom_b = 400, left_b = 0, centerX = 300,
          centerY = 200, scale = 3 / 2\<rparr>,
      settings = \<lparr>playerHeight = 10, playerWidth = 10, ballSpeed = 5, ballSize = 40,
          winScore_cfg = 3, difficulty = 2\<rparr>,
      offsetTop = 0,
      frame_scale = 0,
      timers = [],
      player1 = \<lparr>x = 585, y = 385 / 2, px = 585, py = 585, cx = 1185 / 2, cy = 200,
          vx = 0, vy = 0, width = 15, height = 15, radius = 15 / 2, speed = 50,
          direction = DRight, bounds = \<lparr>top_b = 0, right_b = 600, bottom_b = 400,
          left_b = 0\<rparr>, name = ''player1'', score = 0\<rparr>,
      player2 = \<lparr>x = 0, y = 385 / 2, px = 0, py = 0, cx = 15 / 2, cy = 200, vx = 0,
          vy = 0, width = 15, height = 15, radius = 15 / 2, speed = 50, direction = DRight,
          bounds = \<lparr>top_b = 0, right_b = 600, bottom_b = 400, left_b = 0\<rparr>,
          name = ''player2'', score = 0\<rparr>,
      ball = \<lparr>x = 585, y = 385 / 2, px = 660, py = 385 / 2, cx = 690, cy = 445 / 2,
          vx = 0, vy = 0, width = 60, height = 60, radius = 30, speed = 5, direction = DRight,
          bounds = \<lparr>top_b = 0, right_b = 660, bottom_b = 400, left_b = - 60\<rparr>,
          dx = - 1, dy = 0, launched = True\<rparr>\<rparr>"

text \<open>Then one long frame takes the ball to its left bound.\<close>

definition left_events :: "event list" where
  "left_events = [Click ''button'', KeyUp ''Space'', Frame 200]"

definition left_game :: game where
  "left_game =
     \<lparr>state = \<lparr>current = Play, prev = Some Ready, paused = False, muted = False,
          winScore = 3\<rparr>,
      input = \<lparr>active = True, current_in = Keyboard, keyboard = \<lparr>up = False,
          down = False\<rparr>, mouse_y = 0, touch_y = 0\<rparr>,
      input2 = \<lparr>active = False, current_in = Keyboard,
          keyboard = \<lparr>up = False, down = False\<rparr>\<rparr>,
      screen = \<lparr>top_b = 0, right_b = 600, bottom_b = 400, left_b = 0, centerX = 300,
          centerY = 200, scale = 3 / 2\<rparr>,
      settings = \<lparr>playerHeight = 10, playerWidth = 10, ballSpeed = 5, ballSize = 40,
          winScore_cfg = 3, difficulty = 2\<rparr>,
      offsetTop = 0,
      frame_scale = 200,
      timers = [],
      player1 = \<lparr>x = 585, y = 385 / 2, px = 585, py = 385 / 2, cx = 1185 / 2,
          cy = 200, vx = 0, vy = 0, width = 15, height = 15, radius = 15 / 2, speed = 50,
          direction = DRight, bounds = \<lparr>top_b = 0, right_b = 600, bottom_b = 400,
          left_b = 0\<rparr>, name = ''player1'', score = 0\<rparr>,
      player2 = \<lparr>x = 0, y = 0, px = 0, py = 385 / 2, cx = 15 / 2, cy = 15 / 2,
          vx = 0, vy = - (385 / 2), width = 15, height = 15, radius = 15 / 2, speed = 50,
          direction = DRight, bounds = \<lparr>top_b = 0, right_b = 600, bottom_b = 400,
          left_b = 0\<rparr>, name = ''player2'', score = 0\<rparr>,
      ball = \<lparr>x = - 60, y = 385 / 2, px = 585, py = 385 / 2, cx = - 30,
          cy = 445 / 2, vx = - 645, vy = 0, width = 60, height = 60, radius = 30, speed = 5,
          direction = DRight, bounds = \<lparr>top_b = 0, right_b = 660, bottom_b = 400,
          left_b = - 60\<rparr>, dx = - 1, dy = 0, launched = True\<rparr>\<rparr>"

text \<open>Or a frame takes the ball close to the left paddle, to x = 5.\<close>

definition near_events :: "event list" where
  "near_events = [Click ''button'', KeyUp ''Space'', Frame 116]"

definition near_game :: game where
  "near_game =
     \<lparr>state = \<lparr>current = Play, prev = Some Ready, paused = False, muted = False,
          winScore = 3\<rparr>,
      input = \<lparr>active = True, current_in = Keyboard, keyboard = \<lparr>up = False,
          down = False\<rparr>, mouse_y = 0, touch_y = 0\<rparr>,
      input2 = \<lparr>active = False, current_in = Keyboard,
          keyboard = \<lparr>up = False, down = False\<rparr>\<rparr>,
      screen = \<lparr>top_b = 0, right_b = 600, bottom_b = 400, left_b = 0, centerX = 300,
          centerY = 200, scale = 3 / 2\<rparr>,
      settings = \<lparr>playerHeight = 10, playerWidth = 10, ballSpeed = 5, ballSize = 40,
          winScore_cfg = 3, difficulty = 2\<rparr>,
      offsetTop = 0,
      frame_scale = 116,
      timers = [],
      player1 = \<lparr>x = 585, y = 385 / 2, px = 585, py = 385 / 2, cx = 1185 / 2,
          cy = 200, vx = 0, vy = 0, width = 15, height = 15, radius = 15 / 2, speed = 50,
          direction = DRight, bounds = \<lparr>top_b = 0, right_b = 600, bottom_b = 400,
          left_b = 0\<rparr>, name = ''player1'', score = 0\<rparr>,
      player2 = \<lparr>x = 0, y = 0, px = 0, py = 385 / 2, cx = 15 / 2, cy = 15 / 2,
          vx = 0, vy = - (385 / 2), width = 15, height = 15, radius = 15 / 2, speed = 50,
          direction = DRight, bounds = \<lparr>top_b = 0, right_b = 600, bottom_b = 400,
          left_b = 0\<rparr>, name = ''player2'', score = 0\<rparr>,
      ball = \<lparr>x = 5, y = 385 / 2, px = 585, py = 385 / 2, cx = 35, cy = 445 / 2,
          vx = - 580, vy = 0, width = 60, height = 60, radius = 30, speed = 5,
          direction = DRight, bounds = \<lparr>top_b = 0, right_b = 660, bottom_b = 400,
          left_b = - 60\<rparr>, dx = - 1, dy = 0, launched = True\<rparr>\<rparr>"

text \<open>
  Player 1 is moved to the floor with the down key before the ball is launched from
  its position.
\<close>

definition floor_events :: "event list" where
  "floor_events = [Click ''button'', KeyDown ''ArrowDown'', Frame 10, KeyUp ''Space'']"

definition floor_game :: game where
  "floor_game =
     \<lparr>state = \<lparr>current = Play, prev = Some Ready, paused = False, muted = False,
          winScore = 3\<rparr>,
      input = \<lparr>active = True, current_in = Keyboard, keyboard = \<lparr>up = False,
          down = True\<rparr>, mouse_y = 0, touch_y = 0\<rparr>,
      input2 = \<lparr>active = False, current_in = Keyboard,
          keyboard = \<lparr>up = False, down = False\<rparr>\<rparr>,
      screen = \<lparr>top_b = 0, right_b = 600, bottom_b = 400, left_b = 0, centerX = 300,
          centerY = 200, scale = 3 / 2\<rparr>,
      settings = \<lparr>playerHeight = 10, playerWidth = 10, ballSpeed = 5, ballSize = 40,
          winScore_cfg = 3, difficulty = 2\<rparr>,
      offsetTop = 0,
      frame_scale = 10,
      timers = [],
      player1 = \<lparr>x = 585, y = 385, px = 585, py = 385 / 2, cx = 1185 / 2,
          cy = 785 / 2, vx = 0, vy = 385 / 2, width = 15, height = 15, radius = 15 / 2,
          speed = 50, direction = DRight, bounds = \<lparr>top_b = 0, right_b = 600,
          bottom_b = 400, left_b = 0\<rparr>, name = ''player1'', score = 0\<rparr>,
      player2 = \<lparr>x = 0, y = 385 / 2, px = 0, py = 0, cx = 15 / 2, cy = 200, vx = 0,
          vy = 0, width = 15, height = 15, radius = 15 / 2, speed = 50, direction = DRight,
          bounds = \<lparr>top_b = 0, right_b = 600, bottom_b = 400, left_b = 0\<rparr>,
          name = ''player2'', score = 0\<rparr>,
      ball = \<lparr>x = 585, y = 385, px = 660, py = 385 / 2, cx = 690, cy = 415, vx = 0,
          vy = 385 / 2, width = 60, height = 60, radius = 30, speed = 5, direction = DRight,
          bounds = \<lparr>top_b = 0, right_b = 660, bottom_b = 400, left_b = - 60\<rparr>,
          dx = - 1, dy = 0, launched = True\<rparr>\<rparr>"

text \<open>
  On a canvas of 800 by 100 (scale 1.35) with a player height of 100 the paddles are
  higher than the screen and start at y = -17.5; the ball of size 10 is launched from
  there with the space bar, above the top of its bounds.
\<close>

definition strip_settings :: settings where
  "strip_settings = demo_settings\<lparr>playerHeight := 100, ballSize := 10\<rparr>"

definition strip_start :: game where
  "strip_start = load 800 100 (new_session strip_settings False)"

definition strip_game :: game where
  "strip_game =
     \<lparr>state = \<lparr>current = Play, prev = Some Ready, paused = False, muted = False,
          winScore = 3\<rparr>,
      input = \<lparr>active = True, current_in = Keyboard, keyboard = \<lparr>up = False,
          down = False\<rparr>, mouse_y = 0, touch_y = 0\<rparr>,
      input2 = \<lparr>active = False, current_in = Keyboard,
          keyboard = \<lparr>up = False, down = False\<rparr>\<rparr>,
      screen = \<lparr>top_b = 0, right_b = 800, bottom_b = 100, left_b = 0, centerX = 400,
          centerY = 50, scale = 27 / 20\<rparr>,
      settings = \<lparr>playerHeight = 100, playerWidth = 10, ballSpeed = 5,
          ballSize = 10, winScore_cfg = 3, difficulty = 2\<rparr>,
      offsetTop = 0,
      frame_scale = 0,
      timers = [],
      player1 = \<lparr>x = 1573 / 2, y = - (35 / 2), px = 1573 / 2, py = 1573 / 2,
          cx = 3173 / 4, cy = 50, vx = 0, vy = 0, width = 27 / 2, height = 135,
          radius = 297 / 8, speed = 50, direction = DRight, bounds = \<lparr>top_b = 0,
          right_b = 800, bottom_b = 100, left_b = 0\<rparr>, name = ''player1'',
          score = 0\<rparr>,
      player2 = \<lparr>x = 0, y = - (35 / 2), px = 0, py = 0, cx = 27 / 4, cy = 50,
          vx = 0, vy = 0, width = 27 / 2, height = 135, radius = 297 / 8, speed = 50,
          direction = DRight, bounds = \<lparr>top_b = 0, right_b = 800, bottom_b = 100,
          left_b = 0\<rparr>, name = ''player2'', score = 0\<rparr>,
      ball = \<lparr>x = 1573 / 2, y = - (35 / 2), px = 1627 / 2, py = - (35 / 2),
          cx = 3281 / 4, cy = - (43 / 4), vx = 0, vy = 0, width = 27 / 2, height = 27 / 2,
          radius = 27 / 4, speed = 5, direction = DRight, bounds = \<lparr>top_b = 0,
          right_b = 1627 / 2, bottom_b = 100, left_b = - (27 / 2)\<rparr>, dx = - 1, dy = 0,
          launched = True\<rparr>\<rparr>"

section \<open>Facts about the numbers and the sprite\<close>

lemmas js_defs = inf_signed_def fdiv_def jgt_def jge_def boundBy_def parseInt_def is_space_def
  digit_of_def object_toString_def

lemmas sprite_defs = setBounds_def new_sprite_def setX_def setY_def snapped_def candidate_def
  move_def new_ball_def stop_def ball_move_def launch_now_def launch_def collidesWith_def
  new_player_def sprite.defs ball.defs player.defs

lemmas game_defs = setState_def is_win_def win_check_def key_axis_def pointer_axis_def
  move_player1_def computer_axis_def move_player2_def bounce_edge_def bounce_paddles_def
  score_left_def score_right_def advance_ball_def play_tick_def play_def mk_screen_def
  is_reset_def create_def load_def relaunchBall_def pause_def mute_def handleClicks_def
  set_keys1_def set_keys2_def rightSide_def player1_keys_def player2_keys_def
  join_player2_def pause_key_def handleKeyboardInput_def handleMouseMove_def
  handleTouchMove_def fire_def new_session_def session.defs game.defs

lemma jcmp_NaN [simp]: "jlt a NaN = False" "jle a NaN = False"
  by (cases a; simp)+

lemma jlt_not_jgt: "jlt a (Fin r) \<Longrightarrow> \<not> jgt a (Fin r)"
  by (cases a) (auto simp: jgt_def)

lemma snapped_range: "lo \<le> hi \<Longrightarrow> lo \<le> snapped d lo hi \<and> snapped d lo hi \<le> hi"
  by (cases d) (auto simp: snapped_def jge_def)

lemma snapped_low: "jlt d (Fin lo) \<Longrightarrow> snapped d lo hi = lo"
  by (cases d) (auto simp: snapped_def jge_def)

lemma snapped_high: "lo \<le> hi \<Longrightarrow> jgt d (Fin hi) \<Longrightarrow> snapped d lo hi = hi"
  by (cases d) (auto simp: snapped_def jge_def jgt_def)

lemma snapped_inside: "jge d (Fin lo) \<Longrightarrow> jle d (Fin hi) \<Longrightarrow> Fin (snapped d lo hi) = d"
  by (cases d) (auto simp: snapped_def jge_def)

lemma move_x:
  "x (move ax ay m s) =
     snapped (candidate ax (x s) (speed s) m) (left_b (bounds s)) (right_b (bounds s) - width s)"
  by (simp add: move_def Let_def setX_def setY_def)

lemma move_y:
  "y (move ax ay m s) =
     snapped (candidate ay (y s) (speed s) m) (top_b (bounds s)) (bottom_b (bounds s) - height s)"
  by (simp add: move_def Let_def setX_def setY_def)

lemma move_frame [simp]:
  "bounds (move ax ay m s) = bounds s" "width (move ax ay m s) = width s"
  "height (move ax ay m s) = height s" "speed (move ax ay m s) = speed s"
  "sprite.more (move ax ay m s) = sprite.more s"
  by (simp_all add: move_def Let_def setX_def setY_def)

lemma move_direction:
  "direction (move ax ay m s) =
     (if jgt ax (Fin 0) then DLeft else if jlt ax (Fin 0) then DRight else direction s)"
  by (simp add: move_def Let_def setX_def setY_def)

lemma collisionsWith_find: "collisionsWith b ps = find (collidesWith b) ps"
  by (induction ps) auto

text \<open>
  The setters and \<open>move\<close> recompute the centre from the new position; the assignments
  of \<open>launch\<close> move x and leave the centre where it was.
\<close>

lemma setters_recompute_centre:
  "cx (setX v s) = x (setX v s) + width (setX v s) / 2"
  "cy (setY v s) = y (setY v s) + height (setY v s) / 2"
  by (simp_all add: setX_def setY_def)

lemma move_recomputes_centre:
  "cx (move ax ay m s) = x (move ax ay m s) + width (move ax ay m s) / 2"
  "cy (move ax ay m s) = y (move ax ay m s) + height (move ax ay m s) / 2"
  by (simp_all add: move_def Let_def setX_def setY_def)

lemma launch_now_keeps_centre:
  "x (launch_now off d b) = x b + off" "cx (launch_now off d b) = cx b"
  by (simp_all add: launch_now_def)

section \<open>The sprite, the ball and their queries\<close>

text \<open>
  C1, as stated, fails for a sprite wider than its bounds: the range
  \<open>[left, right - width]\<close> is empty, and the move to the left snaps x to the left
  bound 0, which lies above \<open>right - width = -10\<close>.
\<close>

theorem move_escapes_empty_range:
  "left_b (bounds wide_sprite) < right_b (bounds wide_sprite)
   \<and> top_b (bounds wide_sprite) < bottom_b (bounds wide_sprite)
   \<and> x (move (Fin (- 1)) (Fin 0) 1 wide_sprite) = 0
   \<and> \<not> (left_b (bounds wide_sprite) \<le> x (move (Fin (- 1)) (Fin 0) 1 wide_sprite)
          \<and> x (move (Fin (- 1)) (Fin 0) 1 wide_sprite)
              \<le> right_b (bounds wide_sprite) - width wide_sprite)"
  by (simp add: wide_sprite_def new_sprite_def setBounds_def move_x candidate_def snapped_def jge_def)

text \<open>
  C1 (amended): for every entity whose bounds are at least as wide and as high as the
  entity itself, every commanded axis pair (infinite and NaN axes included) and every
  scale, after \<open>move\<close> the x lies in \<open>[left, right - width]\<close> and the y in
  \<open>[top, bottom - height]\<close>; a candidate below the range snaps to its lower edge and
  one above it to its upper edge, on each axis by itself; bounds and size are unchanged.
\<close>

theorem move_within_bounds:
  assumes "left_b (bounds s) \<le> right_b (bounds s) - width s"
    and "top_b (bounds s) \<le> bottom_b (bounds s) - height s"
  shows "left_b (bounds s) \<le> x (move ax ay m s)
       \<and> x (move ax ay m s) \<le> right_b (bounds s) - width s
       \<and> top_b (bounds s) \<le> y (move ax ay m s)
       \<and> y (move ax ay m s) \<le> bottom_b (bounds s) - height s
       \<and> (jlt (candidate ax (x s) (speed s) m) (Fin (left_b (bounds s)))
            \<longrightarrow> x (move ax ay m s) = left_b (bounds s))
       \<and> (jgt (candidate ax (x s) (speed s) m) (Fin (right_b (bounds s) - width s))
            \<longrightarrow> x (move ax ay m s) = right_b (bounds s) - width s)
       \<and> (jlt (candidate ay (y s) (speed s) m) (Fin (top_b (bounds s)))
            \<longrightarrow> y (move ax ay m s) = top_b (bounds s))
       \<and> (jgt (candidate ay (y s) (speed s) m) (Fin (bottom_b (bounds s) - height s))
            \<longrightarrow> y (move ax ay m s) = bottom_b (bounds s) - height s)
       \<and> bounds (move ax ay m s) = bounds s
       \<and> width (move ax ay m s) = width s
       \<and> height (move ax ay m s) = height s"
  using assms
  by (simp add: move_x move_y snapped_range snapped_low snapped_high)

text \<open>
  The paddle at y = 100 with speed 10: one step up at scale 1 gives 90; at scale 20 the
  candidate is -100 and the paddle stops at the top, 0.
\<close>

theorem move_within_bounds_witness:
  "left_b (bounds scenario_paddle) \<le> right_b (bounds scenario_paddle) - width scenario_paddle
   \<and> top_b (bounds scenario_paddle) \<le> bottom_b (bounds scenario_paddle) - height scenario_paddle
   \<and> y (move (Fin 0) (Fin (- 1)) 1 scenario_paddle) = 90
   \<and> candidate (Fin (- 1)) (y scenario_paddle) (speed scenario_paddle) 20 = Fin (- 100)
   \<and> y (move (Fin 0) (Fin (- 1)) 20 scenario_paddle) = 0
   \<and> top_b (bounds scenario_paddle) \<le> y (move (Fin 0) (Fin (- 1)) 20 scenario_paddle)
   \<and> x (move (Fin 0) (Fin (- 1)) 20 scenario_paddle) = 0"
  using move_within_bounds [of scenario_paddle "Fin 0" "Fin (- 1)" 20]
  by (simp add: scenario_paddle_def new_sprite_def setBounds_def move_x move_y candidate_def
      snapped_def jge_def)

text \<open>
  C10: after \<open>move(axisX, axisY, scale)\<close> the direction is right when \<open>axisX < 0\<close>,
  left when \<open>axisX > 0\<close>, and unchanged when \<open>axisX\<close> is 0 (or NaN).
\<close>

theorem move_sets_direction:
  "(jlt ax (Fin 0) \<longrightarrow> direction (move ax ay m s) = DRight)
   \<and> (jgt ax (Fin 0) \<longrightarrow> direction (move ax ay m s) = DLeft)
   \<and> (ax = Fin 0 \<longrightarrow> direction (move ax ay m s) = direction s)
   \<and> (ax = NaN \<longrightarrow> direction (move ax ay m s) = direction s)"
  by (auto simp: move_direction jgt_def dest: jlt_not_jgt)

theorem move_sets_direction_witness:
  "jlt (Fin (- 1)) (Fin 0) \<and> jgt (Fin 1) (Fin 0)
   \<and> direction (move (Fin (- 1)) (Fin 0) 1 scenario_paddle) = DRight
   \<and> direction (move (Fin 1) (Fin 0) 1 scenario_paddle) = DLeft
   \<and> direction (move (Fin 0) (Fin 1) 1 (move (Fin 1) (Fin 0) 1 scenario_paddle)) = DLeft
   \<and> direction (move NaN (Fin 1) 1 (move (Fin 1) (Fin 0) 1 scenario_paddle)) = DLeft"
  using move_sets_direction [of "Fin (- 1)" "Fin 0" 1 scenario_paddle]
    move_sets_direction [of "Fin 1" "Fin 0" 1 scenario_paddle]
    move_sets_direction [of "Fin 0" "Fin 1" 1 "move (Fin 1) (Fin 0) 1 scenario_paddle"]
    move_sets_direction [of NaN "Fin 1" 1 "move (Fin 1) (Fin 0) 1 scenario_paddle"]
  by (simp add: jgt_def)

text \<open>
  C6: \<open>collidesWith(paddle)\<close> holds exactly when
  \<open>paddle.y < ball.cy < paddle.y + paddle.height\<close> and
  \<open>|paddle.cx - ball.cx| < (paddle.width + ball.width) / 2\<close>; and
  \<open>collisionsWith(list)\<close> is the first paddle of the list, in its order, that passes
  the test, or none when no paddle of the list does.
\<close>

theorem collision_queries:
  "(collidesWith b p \<longleftrightarrow>
      y p < cy b \<and> cy b < y p + height p \<and> \<bar>cx p - cx b\<bar> < (width p + width b) / 2)
   \<and> (collisionsWith b ps = None \<longleftrightarrow> (\<forall>i<length ps. \<not> collidesWith b (ps ! i)))
   \<and> (collisionsWith b ps = Some q \<longleftrightarrow>
        (\<exists>i<length ps. ps ! i = q \<and> collidesWith b q
           \<and> (\<forall>j<i. \<not> collidesWith b (ps ! j))))"
proof -
  have "collisionsWith b ps = None \<longleftrightarrow> (\<forall>i<length ps. \<not> collidesWith b (ps ! i))"
    by (auto simp: collisionsWith_find find_None_iff in_set_conv_nth)
  moreover have "collisionsWith b ps = Some q \<longleftrightarrow>
        (\<exists>i<length ps. ps ! i = q \<and> collidesWith b q \<and> (\<forall>j<i. \<not> collidesWith b (ps ! j)))"
    unfolding collisionsWith_find find_Some_iff by blast
  ultimately show ?thesis
    by (auto simp: collidesWith_def Let_def)
qed

text \<open>
  The ball and the paddle both centred at (400, 300) collide; with the ball centred at
  (500, 300) they do not.
\<close>

theorem collision_queries_witness:
  "cx centre_ball = 400 \<and> cy centre_ball = 300 \<and> cx centre_paddle = 400 \<and> cy centre_paddle = 300
   \<and> cx off_ball = 500
   \<and> collidesWith centre_ball centre_paddle
   \<and> \<not> collidesWith off_ball centre_paddle
   \<and> \<not> collidesWith centre_ball far_paddle
   \<and> collisionsWith centre_ball [far_paddle, centre_paddle] = Some centre_paddle
   \<and> collisionsWith off_ball [far_paddle, centre_paddle] = None"
  using collision_queries [of centre_ball centre_paddle "[far_paddle, centre_paddle]" centre_paddle]
    collision_queries [of off_ball centre_paddle "[far_paddle, centre_paddle]" centre_paddle]
  by (simp add: centre_paddle_def far_paddle_def centre_ball_def off_ball_def sprite_defs)

text \<open>
  C7: \<open>stop()\<close> sets \<open>launched\<close> to false and \<open>dx\<close> to 0 and changes no other field
  (putting the two old values back gives the old ball); and a ball that is not launched
  is left as it is by \<open>move(scale)\<close>, in particular right after \<open>stop()\<close>.
\<close>

theorem stop_and_stopped_move:
  "launched (stop b) = False \<and> dx (stop b) = 0
   \<and> (stop b)\<lparr>launched := launched b, dx := dx b\<rparr> = b
   \<and> dy (stop b) = dy b \<and> x (stop b) = x b \<and> y (stop b) = y b \<and> speed (stop b) = speed b
   \<and> (\<not> launched b \<longrightarrow> ball_move m b = b)
   \<and> ball_move m (stop b) = stop b"
  by (simp add: stop_def ball_move_def)

theorem stop_and_stopped_move_witness:
  "\<not> launched centre_ball \<and> ball_move 3 centre_ball = centre_ball
   \<and> launched (fst (launch None (- 1) 20 centre_ball))
   \<and> x (ball_move 3 (stop (fst (launch None (- 1) 20 centre_ball)))) = 365
   \<and> x (ball_move 3 (fst (launch None (- 1) 20 centre_ball))) = 350"
  using stop_and_stopped_move [of centre_ball 3]
    stop_and_stopped_move [of "fst (launch None (- 1) 20 centre_ball)" 3]
  by (simp add: centre_ball_def sprite_defs js_defs Let_def)





section \<open>What the phases of a tick leave alone\<close>

lemma parseInt_settings: "parseInt (object_toString cfg) = NaN"
  by (simp add: parseInt_def object_toString_def is_space_def digit_of_def)

lemma computer_axis_unclamped:
  "computer_axis g = jdiv (Fin (y (ball g) / 2 - y (player2 g))) (Fin (x (ball g) * 2))"
  by (simp add: computer_axis_def parseInt_settings Let_def boundBy_def jgt_def)

lemma move_ball_fields [simp]:
  "dy (move ax ay m b) = dy b" "dx (move ax ay m b) = dx b"
  "launched (move ax ay m b) = launched b"
  by (simp_all add: move_def Let_def setX_def setY_def)

lemma move_player_fields [simp]:
  "score (move ax ay m p) = score p" "name (move ax ay m p) = name p"
  by (simp_all add: move_def Let_def setX_def setY_def)

lemma dy_ball_ops [simp]:
  "dy (stop b) = dy b" "dy (launch_now off d b) = dy b" "dy (setY v b) = dy b"
  "dy (ball_move m b) = dy b" "dy (fst (launch delay d off b)) = dy b"
  by (simp_all add: stop_def launch_now_def setY_def ball_move_def launch_def Let_def
      split: option.splits)

lemma win_check_frame [simp]:
  "ball (win_check g) = ball g" "player1 (win_check g) = player1 g"
  "player2 (win_check g) = player2 g" "settings (win_check g) = settings g"
  "input2 (win_check g) = input2 g" "timers (win_check g) = timers g"
  by (simp_all add: win_check_def Let_def)

lemma move_player1_frame [simp]:
  "ball (move_player1 g) = ball g" "state (move_player1 g) = state g"
  "player2 (move_player1 g) = player2 g" "settings (move_player1 g) = settings g"
  "input2 (move_player1 g) = input2 g" "timers (move_player1 g) = timers g"
  "score (player1 (move_player1 g)) = score (player1 g)"
  by (simp_all add: move_player1_def split: source.splits)

lemma move_player2_frame [simp]:
  "ball (move_player2 g) = ball g" "state (move_player2 g) = state g"
  "player1 (move_player2 g) = player1 g" "settings (move_player2 g) = settings g"
  "input2 (move_player2 g) = input2 g" "timers (move_player2 g) = timers g"
  "score (player2 (move_player2 g)) = score (player2 g)"
  by (simp_all add: move_player2_def Let_def)

lemma bounce_edge_frame [simp]:
  "state (bounce_edge g) = state g" "player1 (bounce_edge g) = player1 g"
  "player2 (bounce_edge g) = player2 g" "settings (bounce_edge g) = settings g"
  "input2 (bounce_edge g) = input2 g" "timers (bounce_edge g) = timers g"
  by (simp_all add: bounce_edge_def Let_def)

lemma bounce_paddles_frame [simp]:
  "state (bounce_paddles g) = state g" "player1 (bounce_paddles g) = player1 g"
  "player2 (bounce_paddles g) = player2 g" "settings (bounce_paddles g) = settings g"
  "input2 (bounce_paddles g) = input2 g" "dy (ball (bounce_paddles g)) = dy (ball g)"
  by (simp_all add: bounce_paddles_def Let_def split: option.splits)

lemma score_left_frame [simp]:
  "state (score_left g) = state g" "player1 (score_left g) = player1 g"
  "settings (score_left g) = settings g" "input2 (score_left g) = input2 g"
  "dy (ball (score_left g)) = dy (ball g)"
  by (simp_all add: score_left_def Let_def case_prod_beta)

lemma score_right_frame [simp]:
  "state (score_right g) = state g" "player1 (score_right g) = player1 g"
  "settings (score_right g) = settings g" "input2 (score_right g) = input2 g"
  "dy (ball (score_right g)) = dy (ball g)"
  by (simp_all add: score_right_def Let_def)

lemma advance_ball_frame [simp]:
  "state (advance_ball g) = state g" "player1 (advance_ball g) = player1 g"
  "player2 (advance_ball g) = player2 g" "settings (advance_ball g) = settings g"
  "input2 (advance_ball g) = input2 g" "timers (advance_ball g) = timers g"
  "dy (ball (advance_ball g)) = dy (ball g)"
  by (simp_all add: advance_ball_def)

lemma move_player2_size [simp]:
  "width (player2 (move_player2 g)) = width (player2 g)"
  by (simp add: move_player2_def Let_def)

lemma bounce_edge_ball [simp]:
  "x (ball (bounce_edge g)) = x (ball g)" "y (ball (bounce_edge g)) = y (ball g)"
  "bounds (ball (bounce_edge g)) = bounds (ball g)" "width (ball (bounce_edge g)) = width (ball g)"
  "launched (ball (bounce_edge g)) = launched (ball g)"
  by (simp_all add: bounce_edge_def Let_def)

lemma bounce_paddles_ball [simp]:
  "x (ball (bounce_paddles g)) = x (ball g)" "y (ball (bounce_paddles g)) = y (ball g)"
  "bounds (ball (bounce_paddles g)) = bounds (ball g)"
  "width (ball (bounce_paddles g)) = width (ball g)"
  by (simp_all add: bounce_paddles_def Let_def stop_def split: option.splits)

lemma bounce_paddles_launched:
  "launched (ball (bounce_paddles g)) \<Longrightarrow> launched (ball g) \<and> timers (bounce_paddles g) = timers g"
  by (simp add: bounce_paddles_def Let_def stop_def split: option.splits if_splits)

lemma before_score_ball [simp]:
  "x (ball (before_score g)) = x (ball g)" "y (ball (before_score g)) = y (ball g)"
  "bounds (ball (before_score g)) = bounds (ball g)"
  "width (ball (before_score g)) = width (ball g)"
  "width (player2 (before_score g)) = width (player2 g)"
  by (simp_all add: before_score_def)

lemma before_score_launched:
  "launched (ball (before_score g)) \<Longrightarrow> launched (ball g) \<and> timers (before_score g) = timers g"
  using bounce_paddles_launched [of "bounce_edge (move_player2 (move_player1 (win_check g)))"]
  by (simp add: before_score_def)

lemma before_score_frame [simp]:
  "settings (before_score g) = settings g" "input2 (before_score g) = input2 g"
  "state (before_score g) = state (win_check g)"
  by (simp_all add: before_score_def)

lemma play_tick_state: "state (play_tick g) = state (win_check g)"
  by (simp add: play_tick_def)

lemma play_in_Play: "current (state g) = Play \<Longrightarrow> play g = play_tick g"
  by (simp add: play_def Let_def)

lemma dy_bounce_edge: "dy (ball g) = 0 \<Longrightarrow> dy (ball (bounce_edge g)) = 0"
  by (simp add: bounce_edge_def Let_def)

lemma dy_play_tick: "dy (ball g) = 0 \<Longrightarrow> dy (ball (play_tick g)) = 0"
  by (simp add: play_tick_def dy_bounce_edge)

lemma dy_play: "dy (ball g) = 0 \<Longrightarrow> dy (ball (play g)) = 0"
  by (simp add: play_def Let_def dy_play_tick)

lemma dy_create: "dy (ball (create ss)) = 0"
  by (simp add: create_def Let_def dy_play session.defs game.defs new_ball_def sprite.defs
      ball.defs)

lemma dy_load: "dy (ball (load w h ss)) = 0"
  by (simp add: load_def dy_create)

lemma dy_relaunchBall [simp]: "dy (ball (relaunchBall side g)) = dy (ball g)"
  by (simp add: relaunchBall_def Let_def case_prod_beta)

lemma dy_small_handlers [simp]:
  "ball (pause g) = ball g" "ball (mute g) = ball g"
  "ball (set_keys1 f g) = ball g" "ball (set_keys2 f g) = ball g"
  "ball (handleMouseMove v g) = ball g" "ball (handleTouchMove v g) = ball g"
  by (simp_all add: pause_def mute_def set_keys1_def set_keys2_def handleMouseMove_def
      handleTouchMove_def)

lemma dy_key_blocks [simp]:
  "dy (ball (player1_keys ty kc g)) = dy (ball g)"
  "dy (ball (player2_keys ty kc g)) = dy (ball g)"
  "ball (join_player2 ty kc g) = ball g"
  "ball (pause_key ty kc g) = ball g"
  by (simp_all add: player1_keys_def player2_keys_def join_player2_def pause_key_def Let_def)

lemma dy_handleKeyboardInput:
  "handleKeyboardInput ty kc g = Some g' \<Longrightarrow> dy (ball g') = dy (ball g)"
  by (auto simp: handleKeyboardInput_def Let_def split: if_splits)

lemma dy_handleClicks: "handleClicks target g = Some g' \<Longrightarrow> dy (ball g') = dy (ball g)"
  by (auto simp: handleClicks_def Let_def split: if_splits)

lemma dy_fire: "fire i g = Some g' \<Longrightarrow> dy (ball g') = dy (ball g)"
  by (auto simp: fire_def split: if_splits timer.splits)

lemma dy_handle: "dy (ball g) = 0 \<Longrightarrow> handle ev g = Some g' \<Longrightarrow> dy (ball g') = 0"
  by (cases ev)
    (auto simp: dy_play dy_load dest: dy_handleKeyboardInput dy_handleClicks dy_fire)

lemma reachable_dy: "reachable g \<Longrightarrow> dy (ball g) = 0"
  by (induction rule: reachable.induct) (auto simp: dy_load dy_handle)

lemma reachable_run: "reachable g \<Longrightarrow> run evs g = Some g' \<Longrightarrow> reachable g'"
proof (induction evs arbitrary: g)
  case Nil
  then show ?case by simp
next
  case (Cons ev evs)
  then show ?case
    by (auto split: if_splits option.splits intro: reachable.step)
qed

lemma reachable_new_session: "reachable (load w h (new_session cfg m))"
  by (rule reachable.start) (simp add: constructed_def new_session_def)


section \<open>The concrete games\<close>

lemma reachable_demo_start: "reachable demo_start"
  by (simp add: demo_start_def reachable_new_session)

lemma tie_game_run: "run tie_events (load 600 400 (new_session tie_settings False)) = Some tie_game"
  by (simp add: tie_game_def tie_events_def tie_settings_def demo_settings_def js_defs sprite_defs
      game_defs Let_def)

lemma launched_game_run: "run launch_events demo_start = Some launched_game"
  by (simp add: launched_game_def launch_events_def demo_settings_def demo_start_def js_defs
      sprite_defs game_defs Let_def)

lemma left_game_run: "run left_events demo_start = Some left_game"
  by (simp add: left_game_def left_events_def demo_settings_def demo_start_def js_defs
      sprite_defs game_defs Let_def)

lemma near_game_run: "run near_events demo_start = Some near_game"
  by (simp add: near_game_def near_events_def demo_settings_def demo_start_def js_defs
      sprite_defs game_defs Let_def)

lemma floor_game_run: "run floor_events demo_start = Some floor_game"
  by (simp add: floor_game_def floor_events_def demo_settings_def demo_start_def js_defs
      sprite_defs game_defs Let_def)

lemma reachable_strip_start: "reachable strip_start"
  by (simp add: strip_start_def reachable_new_session)

lemma strip_game_run: "run launch_events strip_start = Some strip_game"
  by (simp add: strip_game_def launch_events_def strip_settings_def strip_start_def
      demo_settings_def js_defs sprite_defs game_defs Let_def)

section \<open>The tick\<close>

text \<open>
  C3, as stated, fails on the tie: with a win score of 0 both scores equal it on the
  first tick of play, and the tick ends in the state win-player2, not win-player1.
\<close>

theorem tie_goes_to_player2:
  "run tie_events (load 600 400 (new_session tie_settings False)) = Some tie_game
   \<and> current (state tie_game) = Play
   \<and> int (score (player1 tie_game)) = winScore (state tie_game)
   \<and> int (score (player2 tie_game)) = winScore (state tie_game)
   \<and> current (state (play tie_game)) = WinPlayer2
   \<and> current (state (play tie_game)) \<noteq> WinPlayer1"
  using tie_game_run
  by (simp add: tie_game_def js_defs sprite_defs game_defs Let_def)

text \<open>
  C3 (amended): on any tick in state play where a paddle's score equals the win score,
  the state becomes a win state on that same tick, player 1's score being tested before
  player 2's. The second test overrides the first: when player 2's score equals the win
  score the state is win-player2, also when both scores equal it (the previous state is
  then win-player1); the state is win-player1 only when player 1's score alone equals
  the win score. When neither score equals it the state stays play.
\<close>

theorem win_check_order:
  assumes "current (state g) = Play"
  shows "(int (score (player2 g)) = winScore (state g)
            \<longrightarrow> current (state (play g)) = WinPlayer2)
       \<and> (int (score (player1 g)) = winScore (state g)
            \<and> int (score (player2 g)) \<noteq> winScore (state g)
            \<longrightarrow> current (state (play g)) = WinPlayer1 \<and> prev (state (play g)) = Some Play)
       \<and> (int (score (player1 g)) = winScore (state g)
            \<and> int (score (player2 g)) = winScore (state g)
            \<longrightarrow> prev (state (play g)) = Some WinPlayer1)
       \<and> (int (score (player1 g)) \<noteq> winScore (state g)
            \<and> int (score (player2 g)) \<noteq> winScore (state g)
            \<longrightarrow> current (state (play g)) = Play)"
  using assms
  by (simp add: play_in_Play play_tick_state win_check_def Let_def setState_def)

theorem win_check_order_witness:
  "current (state tie_game) = Play
   \<and> current (state (play tie_game)) = WinPlayer2
   \<and> prev (state (play tie_game)) = Some WinPlayer1
   \<and> current (state (play (tie_game\<lparr>player2 := (player2 tie_game)\<lparr>score := 1\<rparr>\<rparr>))) = WinPlayer1
   \<and> current (state (play (tie_game\<lparr>player1 := (player1 tie_game)\<lparr>score := 1\<rparr>\<rparr>))) = WinPlayer2
   \<and> current (state launched_game) = Play
   \<and> current (state (play launched_game)) = Play"
  using win_check_order [of tie_game]
    win_check_order [of "tie_game\<lparr>player2 := (player2 tie_game)\<lparr>score := 1\<rparr>\<rparr>"]
    win_check_order [of "tie_game\<lparr>player1 := (player1 tie_game)\<lparr>score := 1\<rparr>\<rparr>"]
    win_check_order [of launched_game]
  by (simp add: tie_game_def launched_game_def)

lemma play_tick_at_left:
  assumes "launched (ball (before_score g))"
    and "x (ball g) \<le> left_b (bounds (ball g))"
  shows "play_tick g = score_left (before_score g)"
proof -
  have stopped: "\<not> launched (ball (score_left (before_score g)))"
    using assms
    by (simp add: score_left_def Let_def case_prod_beta launch_def stop_def)
  have "play_tick g = advance_ball (score_right (score_left (before_score g)))"
    by (simp add: play_tick_def before_score_def)
  also have "score_right (score_left (before_score g)) = score_left (before_score g)"
    using stopped by (simp add: score_right_def)
  also have "advance_ball (score_left (before_score g)) = score_left (before_score g)"
    using stopped by (simp add: advance_ball_def ball_move_def)
  finally show ?thesis .
qed

text \<open>
  C2, as stated, fails: player 1 is the paddle on the right, and on the tick in which the
  launched ball is at its left bound the score of player 1 stays as it is; the ball is
  put at the height of player 2, the paddle on the left (y = 0, while player 1 is at
  y = 192.5), and the launch that is scheduled takes it to x = 15, the right edge of
  player 2.
\<close>

theorem left_bound_goes_to_left_paddle:
  "run left_events demo_start = Some left_game
   \<and> current (state left_game) = Play
   \<and> launched (ball left_game)
   \<and> x (ball left_game) \<le> left_b (bounds (ball left_game))
   \<and> \<not> active (input2 left_game)
   \<and> x (player2 left_game) < x (player1 left_game)
   \<and> score (player1 (play (left_game\<lparr>frame_scale := 1\<rparr>))) = score (player1 left_game)
   \<and> y (player1 (play (left_game\<lparr>frame_scale := 1\<rparr>))) = 385 / 2
   \<and> y (player2 (play (left_game\<lparr>frame_scale := 1\<rparr>))) = 0
   \<and> y (ball (play (left_game\<lparr>frame_scale := 1\<rparr>))) = 0
   \<and> timers (play (left_game\<lparr>frame_scale := 1\<rparr>))
       = [(3000, LaunchTimer 75 1), (1000, ResetTimer)]
   \<and> x (launch_now 75 1 (ball (play (left_game\<lparr>frame_scale := 1\<rparr>)))) = 15
   \<and> width (player2 left_game) = 15"
  using left_game_run
  by (simp add: left_game_def js_defs sprite_defs game_defs Let_def)

text \<open>
  C2 (amended): on the tick of play in which the ball is at or beyond its left bound
  and is still launched when the tick tests it, the speed of the ball is reset to the
  configured ball speed and the ball is stopped where it is. When a second human is
  active only a reset is scheduled, after 1000 ms. When none is active the ball is put
  at the height of player 2, the paddle on the left, and its launch to the right is
  scheduled after 3000 ms, next to the reset after 1000 ms; when that timer runs the
  ball is launched with direction 1 from the height of player 2, moved right by the
  width of player 2 plus its own.
\<close>

theorem left_bound_tick:
  assumes "current (state g) = Play"
    and "launched (ball (before_score g))"
    and "x (ball g) \<le> left_b (bounds (ball g))"
  shows "speed (ball (play g)) = real_of_int (ballSpeed (settings g))
       \<and> \<not> launched (ball (play g))
       \<and> x (ball (play g)) = x (ball g)
       \<and> (active (input2 g) \<longrightarrow>
            y (ball (play g)) = y (ball g)
            \<and> timers (play g) = timers g @ [(1000, ResetTimer)])
       \<and> (\<not> active (input2 g) \<longrightarrow>
            y (ball (play g)) = y (player2 (play g))
            \<and> timers (play g) = timers g
                @ [(3000, LaunchTimer (width (player2 g) + width (ball g)) 1),
                   (1000, ResetTimer)]
            \<and> (\<exists>g'. fire (length (timers g)) (play g) = Some g'
                  \<and> launched (ball g') \<and> dx (ball g') = 1
                  \<and> x (ball g') = x (ball g) + (width (player2 g) + width (ball g))
                  \<and> y (ball g') = y (player2 (play g))
                  \<and> timers g' = timers g @ [(1000, ResetTimer)]))"
proof -
  have eq: "play g = score_left (before_score g)"
    using assms by (simp add: play_in_Play play_tick_at_left)
  have tm: "timers (before_score g) = timers g"
    using before_score_launched [OF assms(2)] by simp
  show ?thesis
    unfolding eq using assms(2,3) tm
    by (simp add: score_left_def Let_def case_prod_beta launch_def launch_now_def stop_def
        setY_def fire_def nth_append)
qed

theorem left_bound_tick_witness:
  "current (state (left_game\<lparr>frame_scale := 1\<rparr>)) = Play
   \<and> launched (ball (before_score (left_game\<lparr>frame_scale := 1\<rparr>)))
   \<and> x (ball (left_game\<lparr>frame_scale := 1\<rparr>))
       \<le> left_b (bounds (ball (left_game\<lparr>frame_scale := 1\<rparr>)))
   \<and> \<not> active (input2 (left_game\<lparr>frame_scale := 1\<rparr>))
   \<and> speed (ball (play (left_game\<lparr>frame_scale := 1\<rparr>))) = 5
   \<and> y (ball (play (left_game\<lparr>frame_scale := 1\<rparr>))) = 0
   \<and> timers (play (left_game\<lparr>frame_scale := 1\<rparr>))
       = [(3000, LaunchTimer 75 1), (1000, ResetTimer)]"
  using left_bound_tick [of "left_game\<lparr>frame_scale := 1\<rparr>"]
  by (simp add: before_score_def left_game_def js_defs sprite_defs game_defs Let_def)

text \<open>
  C4 fails on the code, which reads the limit from the settings object instead of its
  difficulty: the limit is NaN and nothing is clamped (\<open>computer_axis_unclamped\<close>).
  With the ball at x = 5, y = 192.5, player 2 at y = 0 and difficulty 2, the claim gives
  the axis 1, the code commands 9.625.
\<close>

theorem computer_axis_ignores_difficulty:
  "run near_events demo_start = Some near_game
   \<and> \<not> active (input2 near_game) \<and> launched (ball near_game) \<and> dx (ball near_game) < 0
   \<and> x (ball near_game) = 5 \<and> y (ball near_game) = 385 / 2 \<and> y (player2 near_game) = 0
   \<and> difficulty (settings near_game) = 2
   \<and> spec_computer_axis near_game = Fin 1
   \<and> computer_axis near_game = Fin (77 / 8)
   \<and> computer_axis near_game \<noteq> spec_computer_axis near_game"
  using near_game_run
  by (simp add: spec_computer_axis_def near_game_def js_defs game_defs Let_def)

text \<open>
  C9 fails on the code for the position jump of \<open>launch\<close>, which assigns \<open>x\<close> without
  \<open>setX\<close>: after the launch from the right the ball is at x = 585 with width 60, and
  its centre is still 690, where it was before, not 615.
\<close>

theorem launch_leaves_centre_stale:
  "run launch_events demo_start = Some launched_game
   \<and> cx (ball demo_start) = x (ball demo_start) + width (ball demo_start) / 2
   \<and> x (ball launched_game) = 585 \<and> width (ball launched_game) = 60
   \<and> cx (ball launched_game) = 690
   \<and> cx (ball launched_game) \<noteq> x (ball launched_game) + width (ball launched_game) / 2"
  using launched_game_run
  by (simp add: launched_game_def demo_settings_def demo_start_def js_defs sprite_defs game_defs
      Let_def)

text \<open>
  C5, as stated, fails in its conclusion: the ball is higher than the paddle, so
  launched from player 1 on the floor (y = 385) it lies below its own range, and the
  next tick moves the launched ball to y = 340.
\<close>

theorem launched_ball_snaps_vertically:
  "run floor_events demo_start = Some floor_game
   \<and> reachable floor_game
   \<and> launched (ball floor_game) \<and> dy (ball floor_game) = 0
   \<and> y (ball floor_game) = 385
   \<and> y (ball (play (floor_game\<lparr>frame_scale := 1\<rparr>))) = 340
   \<and> launched (ball (play (floor_game\<lparr>frame_scale := 1\<rparr>)))
   \<and> y (ball (play (floor_game\<lparr>frame_scale := 1\<rparr>))) \<noteq> y (ball floor_game)"
proof -
  have "reachable floor_game"
    using reachable_run [OF reachable_demo_start floor_game_run] .
  then show ?thesis
    using floor_game_run
    by (simp add: floor_game_def js_defs sprite_defs game_defs Let_def)
qed

text \<open>
  C5 (amended): \<open>dy\<close> is 0 at construction and is only ever negated, so in every
  reachable state \<open>dy\<close> is 0 and no move of the ball commands a vertical motion: the
  candidate y is the y of the ball. The y is still clamped by every move of the
  launched ball: it stays as it is when it lies within \<open>[top, bottom - height]\<close> of the
  ball's bounds; it snaps to \<open>top\<close> when it lies above the top (\<open>y < top\<close>), and to
  \<open>bottom - height\<close> when it does not lie above the top and lies beyond
  \<open>bottom - height\<close>. A ball that is not launched keeps its y in a move.
\<close>

theorem ball_dy_zero:
  assumes "reachable g"
  shows "dy (ball g) = 0
       \<and> candidate (Fin (dy (ball g))) (y (ball g)) (speed (ball g)) m = Fin (y (ball g))
       \<and> (top_b (bounds (ball g)) \<le> y (ball g)
            \<and> y (ball g) \<le> bottom_b (bounds (ball g)) - height (ball g)
            \<longrightarrow> y (ball_move m (ball g)) = y (ball g))
       \<and> (launched (ball g) \<and> y (ball g) < top_b (bounds (ball g))
            \<longrightarrow> y (ball_move m (ball g)) = top_b (bounds (ball g)))
       \<and> (launched (ball g) \<and> y (ball g) > bottom_b (bounds (ball g)) - height (ball g)
            \<and> top_b (bounds (ball g)) \<le> y (ball g)
            \<longrightarrow> y (ball_move m (ball g)) = bottom_b (bounds (ball g)) - height (ball g))
       \<and> (\<not> launched (ball g) \<longrightarrow> y (ball_move m (ball g)) = y (ball g))"
  using reachable_dy [OF assms]
  by (simp add: ball_move_def move_y candidate_def snapped_def jge_def)

theorem ball_dy_zero_witness:
  "reachable launched_game \<and> launched (ball launched_game)
   \<and> dy (ball launched_game) = 0
   \<and> y (ball_move 1 (ball launched_game)) = y (ball launched_game)
   \<and> reachable floor_game \<and> launched (ball floor_game)
   \<and> y (ball floor_game) = 385
   \<and> y (ball_move 1 (ball floor_game)) = 340
   \<and> reachable strip_game \<and> launched (ball strip_game)
   \<and> y (ball strip_game) = - (35 / 2)
   \<and> bottom_b (bounds (ball strip_game)) - height (ball strip_game) = 173 / 2
   \<and> y (ball_move 1 (ball strip_game)) = 0
   \<and> reachable demo_start \<and> \<not> launched (ball demo_start)
   \<and> y (ball_move 1 (ball demo_start)) = y (ball demo_start)"
proof -
  have r1: "reachable launched_game"
    using reachable_run [OF reachable_demo_start launched_game_run] .
  have r2: "reachable floor_game"
    using reachable_run [OF reachable_demo_start floor_game_run] .
  have r3: "reachable strip_game"
    using reachable_run [OF reachable_strip_start strip_game_run] .
  have n4: "\<not> launched (ball demo_start)"
    by (simp add: demo_start_def demo_settings_def js_defs sprite_defs game_defs Let_def)
  show ?thesis
    using r1 r2 r3 n4 reachable_demo_start
      ball_dy_zero [OF r1, of 1] ball_dy_zero [OF r2, of 1] ball_dy_zero [OF r3, of 1]
      ball_dy_zero [OF reachable_demo_start, of 1]
    by (simp add: launched_game_def floor_game_def strip_game_def)
qed

end
